theory Spec2Isabelle
  imports Complex_Main "HOL-Library.Multiset"
begin

section \<open>Values, requests and stored documents\<close>

text \<open>
  The betting backend of \<^verbatim>\<open>main.py\<close>, embedded as pure functions over an explicit
  datastore value.

  Conventions of the embedding:
  \<^item> Python \<^verbatim>\<open>float\<close> amounts (balances, stakes, odds) are the exact reals they denote;
    binary rounding error, infinities and NaN are outside the model.
  \<^item> \<^verbatim>\<open>db\<close> is a \<open>store option\<close>: \<open>None\<close> is the module-level \<^verbatim>\<open>db is None\<close>.
  \<^item> A collection is the list of its documents in insertion order, each paired with its
    \<^verbatim>\<open>_id\<close>. Object ids are natural numbers drawn from a counter kept in the store, so that
    every \<^verbatim>\<open>insert_one\<close> receives an id that no document has.
  \<^item> A raised \<^verbatim>\<open>HTTPException\<close> is the \<open>Inl\<close> of the handler's result. Every handler
    also returns the datastore as it is when the handler ends, so that what a failing
    request leaves behind is part of the result.
  \<^item> Stored documents are those this program writes: every field it sets is present, so
    the defaults of \<^verbatim>\<open>user.get("balance", 0.0)\<close> and \<^verbatim>\<open>user.get("name", "")\<close> are never
    taken.
  \<^item> Requests run one after the other. \<^verbatim>\<open>ensure_indexes\<close> only creates indexes and is
    left out.
  \<^item> \<^verbatim>\<open>now_utc()\<close> reads the environment. A handler takes a function \<open>now\<close>, where
    \<open>now k\<close> is what the \<open>k\<close>-th call of \<^verbatim>\<open>now_utc()\<close> during that call of the handler
    returns, in microseconds.
\<close>

type_synonym oid = nat
type_synonym timestamp = nat
type_synonym clock = "nat \<Rightarrow> timestamp"

datatype http_error = HTTPException nat string

record RegisterRequest =
  rr_name :: string
  rr_phone :: string

record LoginRequest =
  lr_phone :: string

record TopupRequest =
  tr_user_id :: string
  tr_amount :: real

record BetSelection =
  bs_match_id :: string
  bs_market :: string
  bs_odds :: real
  bs_description :: string

record PlaceBetRequest =
  pb_user_id :: string
  pb_stake :: real
  pb_selections :: "BetSelection list"

text \<open>
  The field constraints \<^verbatim>\<open>Field(..., gt=0)\<close> of the request models. The web framework
  checks them before it calls a handler; the handlers themselves do not.
\<close>

definition valid_TopupRequest :: "TopupRequest \<Rightarrow> bool" where
  "valid_TopupRequest p \<longleftrightarrow> 0 < tr_amount p"

definition valid_PlaceBetRequest :: "PlaceBetRequest \<Rightarrow> bool" where
  "valid_PlaceBetRequest p \<longleftrightarrow> 0 < pb_stake p"

record user_doc =
  u_name :: string
  u_phone :: string
  u_balance :: real
  u_is_active :: bool
  u_created_at :: timestamp
  u_updated_at :: timestamp

text \<open>
  A sample match is built without \<^verbatim>\<open>created_at\<close> and \<^verbatim>\<open>updated_at\<close>; the seeding loop
  sets both keys before the insert. \<open>None\<close> is the absent key.
\<close>

record match_doc =
  m_sport :: string
  m_league :: string
  m_home_team :: string
  m_away_team :: string
  m_start_time :: timestamp
  m_status :: string
  m_odds :: "(string \<times> real) list"
  m_created_at :: "timestamp option"
  m_updated_at :: "timestamp option"

record bet_doc =
  b_user_id :: string
  b_stake :: real
  b_selections :: "BetSelection list"
  b_potential_return :: real
  b_status :: string
  b_created_at :: timestamp
  b_updated_at :: timestamp

record tx_doc =
  t_user_id :: string
  t_type :: string
  t_amount :: real
  t_balance_after :: real
  t_reference :: "string option"
  t_created_at :: timestamp
  t_updated_at :: timestamp

record store =
  coll_user :: "(oid \<times> user_doc) list"
  coll_match :: "(oid \<times> match_doc) list"
  coll_bet :: "(oid \<times> bet_doc) list"
  coll_wallettransaction :: "(oid \<times> tx_doc) list"
  next_oid :: oid

definition empty_store :: store where
  "empty_store =
     \<lparr>coll_user = [], coll_match = [], coll_bet = [], coll_wallettransaction = [],
      next_oid = 0\<rparr>"

section \<open>Library operations the handlers call\<close>

subsection \<open>Object ids as strings\<close>

text \<open>
  \<^verbatim>\<open>ObjectId(s)\<close> of the driver reads a string of 24 hexadecimal digits, in either case,
  and raises on a string that is not an id; \<^verbatim>\<open>str(oid)\<close> prints 24 lower-case digits.
  The model takes the well-formed ids to be exactly the strings of 24 hexadecimal digits.
  Two strings that differ only in the case of a digit denote the same id.
\<close>

definition hex_val :: "char \<Rightarrow> nat option" where
  "hex_val c =
     (let n = (of_char c :: nat)
      in if 48 \<le> n \<and> n \<le> 57 then Some (n - 48)
         else if 97 \<le> n \<and> n \<le> 102 then Some (n - 87)
         else if 65 \<le> n \<and> n \<le> 70 then Some (n - 55)
         else None)"

fun from_hex :: "nat \<Rightarrow> string \<Rightarrow> nat option" where
  "from_hex acc [] = Some acc"
| "from_hex acc (c # cs) =
     (case hex_val c of None \<Rightarrow> None | Some d \<Rightarrow> from_hex (16 * acc + d) cs)"

definition ObjectId :: "string \<Rightarrow> oid option" where
  "ObjectId s = (if length s = 24 then from_hex 0 s else None)"

definition hex_char :: "nat \<Rightarrow> char" where
  "hex_char d = (if d < 10 then char_of (48 + d) else char_of (87 + d))"

fun to_hex :: "nat \<Rightarrow> nat \<Rightarrow> string" where
  "to_hex 0 n = []"
| "to_hex (Suc k) n = to_hex k (n div 16) @ [hex_char (n mod 16)]"

definition str_oid :: "oid \<Rightarrow> string" where
  "str_oid i = to_hex 24 i"

subsection \<open>Collections\<close>

text \<open>\<^verbatim>\<open>find_one({"_id": oid})\<close>: the first document with that id, if any.\<close>

fun find_one_by_id :: "oid \<Rightarrow> (oid \<times> 'a) list \<Rightarrow> 'a option" where
  "find_one_by_id i [] = None"
| "find_one_by_id i ((j, d) # ds) = (if j = i then Some d else find_one_by_id i ds)"

text \<open>\<^verbatim>\<open>find_one({"phone": phone})\<close> on the user collection.\<close>

fun find_one_by_phone :: "string \<Rightarrow> (oid \<times> user_doc) list \<Rightarrow> (oid \<times> user_doc) option" where
  "find_one_by_phone ph [] = None"
| "find_one_by_phone ph ((j, u) # ds) =
     (if u_phone u = ph then Some (j, u) else find_one_by_phone ph ds)"

text \<open>\<^verbatim>\<open>update_one({"_id": oid}, {"$set": ...})\<close>: the first document with that id is changed.\<close>

fun update_one :: "oid \<Rightarrow> ('a \<Rightarrow> 'a) \<Rightarrow> (oid \<times> 'a) list \<Rightarrow> (oid \<times> 'a) list" where
  "update_one i f [] = []"
| "update_one i f ((j, d) # ds) =
     (if j = i then (j, f d) # ds else (j, d) # update_one i f ds)"

definition count_documents :: "(oid \<times> 'a) list \<Rightarrow> nat" where
  "count_documents ds = length ds"

text \<open>
  A cursor's \<^verbatim>\<open>limit(n)\<close>: the driver documents a limit of 0 as no limit, and the server
  reads a negative limit as its absolute value.
\<close>

definition cursor_limit :: "int \<Rightarrow> 'a list \<Rightarrow> 'a list" where
  "cursor_limit n ds = (if n = 0 then ds else take (nat \<bar>n\<bar>) ds)"

text \<open>\<^verbatim>\<open>sort(key, -1)\<close> and \<^verbatim>\<open>sort(key, 1)\<close> on a cursor.\<close>

definition sort_desc :: "('a \<Rightarrow> nat) \<Rightarrow> 'a list \<Rightarrow> 'a list" where
  "sort_desc k ds = rev (sort_key k ds)"

definition sort_asc :: "('a \<Rightarrow> nat) \<Rightarrow> 'a list \<Rightarrow> 'a list" where
  "sort_asc k ds = sort_key k ds"

text \<open>
  Python's \<^verbatim>\<open>round(x, 2)\<close>: to the nearest multiple of one hundredth, a tie to the even
  one.
\<close>

definition round_half_even :: "real \<Rightarrow> int" where
  "round_half_even x =
     (let f = \<lfloor>x\<rfloor>; d = x - of_int f
      in if d < 1 / 2 then f
         else if 1 / 2 < d then f + 1
         else if even f then f else f + 1)"

definition round2 :: "real \<Rightarrow> real" where
  "round2 x = of_int (round_half_even (x * 100)) / 100"

section \<open>Seeding\<close>

definition replace_microsecond0 :: "timestamp \<Rightarrow> timestamp" where
  "replace_microsecond0 t = t - t mod 1000000"

definition samples :: "clock \<Rightarrow> match_doc list" where
  "samples now =
     [\<lparr>m_sport = ''football'', m_league = ''Ethiopian Premier League'',
       m_home_team = ''Saint George'', m_away_team = ''Buna'',
       m_start_time = replace_microsecond0 (now 0), m_status = ''scheduled'',
       m_odds = [(''home_win'', 185 / 100), (''draw'', 32 / 10), (''away_win'', 39 / 10)],
       m_created_at = None, m_updated_at = None\<rparr>,
      \<lparr>m_sport = ''football'', m_league = ''Ethiopian Premier League'',
       m_home_team = ''Fasil Kenema'', m_away_team = ''Wolaita Dicha'',
       m_start_time = replace_microsecond0 (now 1), m_status = ''scheduled'',
       m_odds = [(''home_win'', 21 / 10), (''draw'', 3), (''away_win'', 34 / 10)],
       m_created_at = None, m_updated_at = None\<rparr>,
      \<lparr>m_sport = ''basketball'', m_league = ''Ethiopia Cup'',
       m_home_team = ''Addis Lions'', m_away_team = ''Hawassa Hawks'',
       m_start_time = replace_microsecond0 (now 2), m_status = ''scheduled'',
       m_odds = [(''home_win'', 17 / 10), (''draw'', 0), (''away_win'', 22 / 10)],
       m_created_at = None, m_updated_at = None\<rparr>]"

text \<open>
  The loop \<^verbatim>\<open>for m in samples\<close>; \<open>k\<close> counts the calls of \<^verbatim>\<open>now_utc()\<close> made so far.
\<close>

fun seed_loop :: "clock \<Rightarrow> nat \<Rightarrow> match_doc list \<Rightarrow> store \<Rightarrow> store" where
  "seed_loop now k [] s = s"
| "seed_loop now k (m # ms) s =
     seed_loop now (k + 2) ms
       (s\<lparr>coll_match :=
            coll_match s @
              [(next_oid s, m\<lparr>m_created_at := Some (now k), m_updated_at := Some (now (k + 1))\<rparr>)],
          next_oid := Suc (next_oid s)\<rparr>)"

definition seed_matches :: "clock \<Rightarrow> store option \<Rightarrow> store option" where
  "seed_matches now db =
     (case db of
        None \<Rightarrow> None
      | Some s \<Rightarrow>
          if count_documents (coll_match s) > 0 then Some s
          else Some (seed_loop now 3 (samples now) s))"

section \<open>Users\<close>

record user_response =
  ur_user_id :: string
  ur_name :: string
  ur_phone :: string
  ur_balance :: real

definition db_unavailable :: http_error where
  "db_unavailable = HTTPException 500 ''Database not available''"

definition register_user ::
  "clock \<Rightarrow> store option \<Rightarrow> RegisterRequest \<Rightarrow> store option \<times> (http_error + user_response)" where
  "register_user now db payload =
     (case db of
        None \<Rightarrow> (db, Inl db_unavailable)
      | Some s \<Rightarrow>
          (case find_one_by_phone (rr_phone payload) (coll_user s) of
             Some _ \<Rightarrow> (db, Inl (HTTPException 400 ''Phone already registered''))
           | None \<Rightarrow>
               let user = \<lparr>u_name = rr_name payload, u_phone = rr_phone payload,
                           u_balance = 0, u_is_active = True,
                           u_created_at = now 0, u_updated_at = now 1\<rparr>;
                   inserted_id = next_oid s
               in (Some (s\<lparr>coll_user := coll_user s @ [(inserted_id, user)],
                           next_oid := Suc inserted_id\<rparr>),
                   Inr \<lparr>ur_user_id = str_oid inserted_id, ur_name = u_name user,
                        ur_phone = u_phone user, ur_balance = u_balance user\<rparr>)))"

definition login_user ::
  "store option \<Rightarrow> LoginRequest \<Rightarrow> store option \<times> (http_error + user_response)" where
  "login_user db payload =
     (case db of
        None \<Rightarrow> (db, Inl db_unavailable)
      | Some s \<Rightarrow>
          (case find_one_by_phone (lr_phone payload) (coll_user s) of
             None \<Rightarrow> (db, Inl (HTTPException 404 ''User not found''))
           | Some (i, user) \<Rightarrow>
               (db, Inr \<lparr>ur_user_id = str_oid i, ur_name = u_name user,
                         ur_phone = u_phone user, ur_balance = u_balance user\<rparr>)))"

definition get_user ::
  "store option \<Rightarrow> string \<Rightarrow> store option \<times> (http_error + user_response)" where
  "get_user db user_id =
     (case db of
        None \<Rightarrow> (db, Inl db_unavailable)
      | Some s \<Rightarrow>
          (case ObjectId user_id of
             None \<Rightarrow> (db, Inl (HTTPException 400 ''Invalid user id''))
           | Some i \<Rightarrow>
               (case find_one_by_id i (coll_user s) of
                  None \<Rightarrow> (db, Inl (HTTPException 404 ''User not found''))
                | Some user \<Rightarrow>
                    (db, Inr \<lparr>ur_user_id = str_oid i, ur_name = u_name user,
                              ur_phone = u_phone user, ur_balance = u_balance user\<rparr>))))"

section \<open>Wallet\<close>

definition topup_wallet ::
  "clock \<Rightarrow> store option \<Rightarrow> TopupRequest \<Rightarrow> store option \<times> (http_error + real)" where
  "topup_wallet now db payload =
     (case db of
        None \<Rightarrow> (db, Inl db_unavailable)
      | Some s \<Rightarrow>
          (case ObjectId (tr_user_id payload) of
             None \<Rightarrow> (db, Inl (HTTPException 400 ''Invalid user id''))
           | Some i \<Rightarrow>
               (case find_one_by_id i (coll_user s) of
                  None \<Rightarrow> (db, Inl (HTTPException 404 ''User not found''))
                | Some user \<Rightarrow>
                    let new_balance = u_balance user + tr_amount payload;
                        s1 = s\<lparr>coll_user :=
                                 update_one i
                                   (\<lambda>u. u\<lparr>u_balance := new_balance, u_updated_at := now 0\<rparr>)
                                   (coll_user s)\<rparr>;
                        tx = \<lparr>t_user_id = tr_user_id payload, t_type = ''topup'',
                              t_amount = tr_amount payload, t_balance_after = new_balance,
                              t_reference = None,
                              t_created_at = now 1, t_updated_at = now 2\<rparr>;
                        s2 = s1\<lparr>coll_wallettransaction :=
                                  coll_wallettransaction s1 @ [(next_oid s1, tx)],
                                next_oid := Suc (next_oid s1)\<rparr>
                    in (Some s2, Inr new_balance))))"

text \<open>
  \<^verbatim>\<open>list_transactions\<close> selects by equality of the stored \<^verbatim>\<open>user_id\<close> string and hands
  \<^verbatim>\<open>limit\<close> to the cursor as it is. Each item is the document with its id as a string.
\<close>

definition list_transactions ::
  "store option \<Rightarrow> string \<Rightarrow> int \<Rightarrow> store option \<times> (http_error + (string \<times> tx_doc) list)" where
  "list_transactions db user_id limit =
     (case db of
        None \<Rightarrow> (db, Inl db_unavailable)
      | Some s \<Rightarrow>
          let cursor =
                cursor_limit limit
                  (sort_desc (\<lambda>(i, t). t_created_at t)
                     (filter (\<lambda>(i, t). t_user_id t = user_id) (coll_wallettransaction s)))
          in (db, Inr (map (\<lambda>(i, t). (str_oid i, t)) cursor)))"

section \<open>Matches\<close>

record match_item =
  mi_id :: string
  mi_sport :: string
  mi_league :: string
  mi_home_team :: string
  mi_away_team :: string
  mi_start_time :: timestamp
  mi_status :: string
  mi_odds :: "(string \<times> real) list"

definition list_matches :: "store option \<Rightarrow> store option \<times> (http_error + match_item list)" where
  "list_matches db =
     (case db of
        None \<Rightarrow> (db, Inl db_unavailable)
      | Some s \<Rightarrow>
          (db, Inr (map (\<lambda>(i, m).
                      \<lparr>mi_id = str_oid i, mi_sport = m_sport m, mi_league = m_league m,
                       mi_home_team = m_home_team m, mi_away_team = m_away_team m,
                       mi_start_time = m_start_time m, mi_status = m_status m,
                       mi_odds = m_odds m\<rparr>)
                    (sort_asc (\<lambda>(i, m). m_start_time m) (coll_match s)))))"

section \<open>Bets\<close>

definition list_bets ::
  "store option \<Rightarrow> string \<Rightarrow> store option \<times> (http_error + (string \<times> bet_doc) list)" where
  "list_bets db user_id =
     (case db of
        None \<Rightarrow> (db, Inl db_unavailable)
      | Some s \<Rightarrow>
          (db, Inr (map (\<lambda>(i, b). (str_oid i, b))
                    (sort_desc (\<lambda>(i, b). b_created_at b)
                       (filter (\<lambda>(i, b). b_user_id b = user_id) (coll_bet s))))))"

text \<open>
  The loop \<^verbatim>\<open>for s in payload.selections\<close> of \<^verbatim>\<open>place_bet\<close>: each selection is checked
  and then multiplied into \<^verbatim>\<open>total_odds\<close>; the \<^verbatim>\<open>raise\<close> leaves the loop.
\<close>

fun total_odds_loop :: "real \<Rightarrow> BetSelection list \<Rightarrow> http_error + real" where
  "total_odds_loop total_odds [] = Inr total_odds"
| "total_odds_loop total_odds (s # ss) =
     (if bs_odds s \<le> 1 then Inl (HTTPException 400 ''Invalid odds in selection'')
      else total_odds_loop (total_odds * bs_odds s) ss)"

record bet_response =
  br_bet_id :: string
  br_potential_return :: real
  br_balance :: real

definition place_bet ::
  "clock \<Rightarrow> store option \<Rightarrow> PlaceBetRequest \<Rightarrow> store option \<times> (http_error + bet_response)" where
  "place_bet now db payload =
     (case db of
        None \<Rightarrow> (db, Inl db_unavailable)
      | Some s \<Rightarrow>
          (case ObjectId (pb_user_id payload) of
             None \<Rightarrow> (db, Inl (HTTPException 400 ''Invalid user id''))
           | Some i \<Rightarrow>
               (case find_one_by_id i (coll_user s) of
                  None \<Rightarrow> (db, Inl (HTTPException 404 ''User not found''))
                | Some user \<Rightarrow>
                    if pb_selections payload = [] then
                      (db, Inl (HTTPException 400 ''No selections provided''))
                    else
                      (case total_odds_loop 1 (pb_selections payload) of
                         Inl e \<Rightarrow> (db, Inl e)
                       | Inr total_odds \<Rightarrow>
                           let potential_return = round2 (pb_stake payload * total_odds);
                               balance = u_balance user
                           in if balance < pb_stake payload then
                                (db, Inl (HTTPException 400 ''Insufficient balance''))
                              else
                                let new_balance = round2 (balance - pb_stake payload);
                                    s1 = s\<lparr>coll_user :=
                                             update_one i
                                               (\<lambda>u. u\<lparr>u_balance := new_balance,
                                                       u_updated_at := now 0\<rparr>)
                                               (coll_user s)\<rparr>;
                                    bet = \<lparr>b_user_id = pb_user_id payload,
                                           b_stake = pb_stake payload,
                                           b_selections = pb_selections payload,
                                           b_potential_return = potential_return,
                                           b_status = ''pending'',
                                           b_created_at = now 1, b_updated_at = now 2\<rparr>;
                                    bet_id = next_oid s1;
                                    s2 = s1\<lparr>coll_bet := coll_bet s1 @ [(bet_id, bet)],
                                            next_oid := Suc bet_id\<rparr>;
                                    tx = \<lparr>t_user_id = pb_user_id payload,
                                          t_type = ''bet_place'',
                                          t_amount = - pb_stake payload,
                                          t_balance_after = new_balance,
                                          t_reference = Some (str_oid bet_id),
                                          t_created_at = now 3, t_updated_at = now 4\<rparr>;
                                    s3 = s2\<lparr>coll_wallettransaction :=
                                              coll_wallettransaction s2 @ [(next_oid s2, tx)],
                                            next_oid := Suc (next_oid s2)\<rparr>
                                in (Some s3,
                                    Inr \<lparr>br_bet_id = str_oid bet_id,
                                         br_potential_return = potential_return,
                                         br_balance = new_balance\<rparr>)))))"

section \<open>Request sequences and the ledger\<close>













section \<open>Sample data for the worked examples\<close>

definition demo_id :: string where
  "demo_id = ''000000000000000000000000''"

definition demo_user :: "real \<Rightarrow> user_doc" where
  "demo_user b =
     \<lparr>u_name = ''Abebe'', u_phone = ''0911000000'', u_balance = b, u_is_active = True,
      u_created_at = 0, u_updated_at = 0\<rparr>"

definition demo_store :: "real \<Rightarrow> store" where
  "demo_store b = empty_store\<lparr>coll_user := [(0, demo_user b)], next_oid := 1\<rparr>"

definition demo_selection :: "real \<Rightarrow> BetSelection" where
  "demo_selection x =
     \<lparr>bs_match_id = ''m1'', bs_market = ''home_win'', bs_odds = x, bs_description = ''1''\<rparr>"

definition demo_bet :: "real \<Rightarrow> real list \<Rightarrow> PlaceBetRequest" where
  "demo_bet stake os =
     \<lparr>pb_user_id = demo_id, pb_stake = stake, pb_selections = map demo_selection os\<rparr>"

definition demo_topup :: "real \<Rightarrow> TopupRequest" where
  "demo_topup a = \<lparr>tr_user_id = demo_id, tr_amount = a\<rparr>"

definition demo_register :: RegisterRequest where
  "demo_register = \<lparr>rr_name = ''Abebe'', rr_phone = ''0911000000''\<rparr>"

definition demo_clock :: clock where
  "demo_clock k = k"

definition demo_tx :: "real \<Rightarrow> real \<Rightarrow> timestamp \<Rightarrow> tx_doc" where
  "demo_tx a b t =
     \<lparr>t_user_id = demo_id, t_type = ''topup'', t_amount = a, t_balance_after = b,
      t_reference = None, t_created_at = t, t_updated_at = t\<rparr>"

definition demo_ledger_store :: store where
  "demo_ledger_store =
     (demo_store 75)\<lparr>coll_wallettransaction := [(1, demo_tx 50 50 10), (2, demo_tx 25 75 20)],
                      next_oid := 3\<rparr>"



section \<open>Basic facts\<close>

lemma ObjectId_demo_id: "ObjectId demo_id = Some 0"
  by (simp add: ObjectId_def demo_id_def hex_val_def)

lemma round2_0: "round2 0 = 0"
  by (simp add: round2_def round_half_even_def)

lemma find_update_one:
  "find_one_by_id i ds = Some d \<Longrightarrow> find_one_by_id i (update_one i f ds) = Some (f d)"
  by (induction ds) auto

subsection \<open>The odds loop\<close>

lemma total_odds_loop_append:
  "\<forall>x\<in>set xs. 1 < bs_odds x \<Longrightarrow>
   total_odds_loop acc (xs @ rest) = total_odds_loop (acc * prod_list (map bs_odds xs)) rest"
  by (induction xs arbitrary: acc) (simp_all add: mult.assoc)

lemma total_odds_loop_Inr:
  "\<forall>x\<in>set xs. 1 < bs_odds x \<Longrightarrow>
   total_odds_loop acc xs = Inr (acc * prod_list (map bs_odds xs))"
  using total_odds_loop_append [of xs acc "[]"] by simp

lemma total_odds_loop_Inl:
  "\<exists>x\<in>set xs. bs_odds x \<le> 1 \<Longrightarrow>
   total_odds_loop acc xs = Inl (HTTPException 400 ''Invalid odds in selection'')"
  by (induction xs arbitrary: acc) auto

lemma total_odds_loop_Inr_iff:
  "total_odds_loop acc xs = Inr t \<longleftrightarrow>
   (\<forall>x\<in>set xs. 1 < bs_odds x) \<and> t = acc * prod_list (map bs_odds xs)"
proof (cases "\<forall>x\<in>set xs. 1 < bs_odds x")
  case True
  then show ?thesis by (auto simp: total_odds_loop_Inr)
next
  case False
  then have "\<exists>x\<in>set xs. bs_odds x \<le> 1" by (auto simp: not_less)
  then have "total_odds_loop acc xs = Inl (HTTPException 400 ''Invalid odds in selection'')"
    by (rule total_odds_loop_Inl)
  with False show ?thesis by simp
qed

subsection \<open>The two outcomes of a bet\<close>

lemma place_bet_Inl_unchanged:
  "place_bet now db p = (db', Inl e) \<Longrightarrow> db' = db"
  unfolding place_bet_def Let_def
  by (simp split: option.splits sum.splits if_splits)

lemma place_bet_Inr_iff:
  "place_bet now db p = (db', Inr r) \<longleftrightarrow>
   (\<exists>s i u. db = Some s \<and> ObjectId (pb_user_id p) = Some i
      \<and> find_one_by_id i (coll_user s) = Some u
      \<and> pb_selections p \<noteq> []
      \<and> (\<forall>x\<in>set (pb_selections p). 1 < bs_odds x)
      \<and> \<not> u_balance u < pb_stake p
      \<and> place_bet now db p = (db', Inr r))"
  unfolding place_bet_def Let_def
  by (simp add: total_odds_loop_Inr_iff split: option.splits sum.splits if_splits)

lemma place_bet_success:
  assumes "ObjectId (pb_user_id p) = Some i"
    and "find_one_by_id i (coll_user s) = Some u"
    and "pb_selections p \<noteq> []"
    and "\<forall>x\<in>set (pb_selections p). 1 < bs_odds x"
    and "\<not> u_balance u < pb_stake p"
  shows "place_bet now (Some s) p =
     (Some (s\<lparr>coll_user :=
                 update_one i
                   (\<lambda>v. v\<lparr>u_balance := round2 (u_balance u - pb_stake p), u_updated_at := now 0\<rparr>)
                   (coll_user s),
               coll_bet :=
                 coll_bet s @
                   [(next_oid s,
                     \<lparr>b_user_id = pb_user_id p, b_stake = pb_stake p,
                      b_selections = pb_selections p,
                      b_potential_return =
                        round2 (pb_stake p * prod_list (map bs_odds (pb_selections p))),
                      b_status = ''pending'', b_created_at = now 1, b_updated_at = now 2\<rparr>)],
               coll_wallettransaction :=
                 coll_wallettransaction s @
                   [(Suc (next_oid s),
                     \<lparr>t_user_id = pb_user_id p, t_type = ''bet_place'',
                      t_amount = - pb_stake p,
                      t_balance_after = round2 (u_balance u - pb_stake p),
                      t_reference = Some (str_oid (next_oid s)),
                      t_created_at = now 3, t_updated_at = now 4\<rparr>)],
               next_oid := Suc (Suc (next_oid s))\<rparr>),
      Inr \<lparr>br_bet_id = str_oid (next_oid s),
           br_potential_return = round2 (pb_stake p * prod_list (map bs_odds (pb_selections p))),
           br_balance = round2 (u_balance u - pb_stake p)\<rparr>)"
  using assms by (simp add: place_bet_def Let_def total_odds_loop_Inr)

subsection \<open>Updates of a collection\<close>

lemma map_fst_update_one: "map fst (update_one i f ds) = map fst ds"
  by (induction ds) auto

lemma find_update_one_other:
  "j \<noteq> i \<Longrightarrow> find_one_by_id j (update_one i f ds) = find_one_by_id j ds"
  by (induction ds) auto

subsection \<open>The two outcomes of a top-up\<close>

lemma topup_wallet_success:
  assumes "ObjectId (tr_user_id p) = Some i"
    and "find_one_by_id i (coll_user s) = Some u"
  shows "topup_wallet now (Some s) p =
     (Some (s\<lparr>coll_user :=
                 update_one i
                   (\<lambda>v. v\<lparr>u_balance := u_balance u + tr_amount p, u_updated_at := now 0\<rparr>)
                   (coll_user s),
               coll_wallettransaction :=
                 coll_wallettransaction s @
                   [(next_oid s,
                     \<lparr>t_user_id = tr_user_id p, t_type = ''topup'',
                      t_amount = tr_amount p,
                      t_balance_after = u_balance u + tr_amount p,
                      t_reference = None,
                      t_created_at = now 1, t_updated_at = now 2\<rparr>)],
               next_oid := Suc (next_oid s)\<rparr>),
      Inr (u_balance u + tr_amount p))"
  using assms by (simp add: topup_wallet_def Let_def)



subsection \<open>Registration\<close>

lemma find_one_by_phone_None_iff:
  "find_one_by_phone ph ds = None \<longleftrightarrow> \<not> (\<exists>(j, u)\<in>set ds. u_phone u = ph)"
  by (induction ph ds rule: find_one_by_phone.induct) simp_all

lemma find_one_by_phone_append:
  "find_one_by_phone ph (ds @ [(j, u)]) =
     (case find_one_by_phone ph ds of
        None \<Rightarrow> if u_phone u = ph then Some (j, u) else None
      | Some x \<Rightarrow> Some x)"
  by (induction ph ds rule: find_one_by_phone.induct) simp_all

lemma register_user_taken:
  "find_one_by_phone (rr_phone p) (coll_user s) = Some x \<Longrightarrow>
   register_user now (Some s) p = (Some s, Inl (HTTPException 400 ''Phone already registered''))"
  by (simp add: register_user_def)

lemma register_user_success:
  "find_one_by_phone (rr_phone p) (coll_user s) = None \<Longrightarrow>
   register_user now (Some s) p =
     (Some (s\<lparr>coll_user :=
                 coll_user s @
                   [(next_oid s,
                     \<lparr>u_name = rr_name p, u_phone = rr_phone p, u_balance = 0,
                      u_is_active = True, u_created_at = now 0, u_updated_at = now 1\<rparr>)],
               next_oid := Suc (next_oid s)\<rparr>),
      Inr \<lparr>ur_user_id = str_oid (next_oid s), ur_name = rr_name p, ur_phone = rr_phone p,
           ur_balance = 0\<rparr>)"
  by (simp add: register_user_def Let_def)

subsection \<open>Cursors\<close>

lemma mset_sort_desc: "mset (sort_desc k ds) = mset ds"
  by (simp add: sort_desc_def)

subsection \<open>Hundredths and the ledger\<close>












subsection \<open>What a request preserves\<close>







section \<open>Datastore unavailable\<close>

text \<open>
  Claim C8. Each of the eight handlers under \<^verbatim>\<open>/api\<close> starts with the test
  \<^verbatim>\<open>db is None\<close>: with the datastore unavailable it returns the error 500
  ``Database not available'' whatever the request is (a malformed user id, an empty
  selection list, invalid odds, any amount), and the datastore stays unavailable and
  untouched. The routes \<^verbatim>\<open>/\<close> and \<^verbatim>\<open>/test\<close> are not among them: the first never reads
  the datastore, the second reports in its answer whether there is one and raises
  nothing.
\<close>

theorem db_unavailable_short_circuit:
  "register_user now None rp = (None, Inl (HTTPException 500 ''Database not available''))
   \<and> login_user None lp = (None, Inl (HTTPException 500 ''Database not available''))
   \<and> get_user None uid = (None, Inl (HTTPException 500 ''Database not available''))
   \<and> topup_wallet now None tp = (None, Inl (HTTPException 500 ''Database not available''))
   \<and> list_transactions None uid limit = (None, Inl (HTTPException 500 ''Database not available''))
   \<and> list_matches None = (None, Inl (HTTPException 500 ''Database not available''))
   \<and> list_bets None uid = (None, Inl (HTTPException 500 ''Database not available''))
   \<and> place_bet now None bp = (None, Inl (HTTPException 500 ''Database not available''))"
  by (simp add: register_user_def login_user_def get_user_def topup_wallet_def
      list_transactions_def list_matches_def list_bets_def place_bet_def db_unavailable_def)

section \<open>Rejected bets\<close>

text \<open>
  Claim C2. A call of \<^verbatim>\<open>place_bet\<close> that raises returns the datastore it was given: no
  balance is changed and no bet or wallet transaction is inserted. A malformed user
  id, an absent user, an empty selection list, a selection with odds at most 1 and a
  balance below the stake each make the call raise.
\<close>

theorem place_bet_failure_no_side_effects:
  "(\<forall>e. snd (place_bet now db p) = Inl e \<longrightarrow> fst (place_bet now db p) = db)
   \<and> (db = Some s
        \<and> (ObjectId (pb_user_id p) = None
           \<or> (\<exists>i. ObjectId (pb_user_id p) = Some i
                \<and> (find_one_by_id i (coll_user s) = None
                    \<or> (\<exists>u. find_one_by_id i (coll_user s) = Some u \<and> u_balance u < pb_stake p)))
           \<or> pb_selections p = []
           \<or> (\<exists>x\<in>set (pb_selections p). bs_odds x \<le> 1))
       \<longrightarrow> (\<exists>e. place_bet now db p = (db, Inl e)))"
proof (intro conjI allI impI)
  fix e
  assume "snd (place_bet now db p) = Inl e"
  then have "place_bet now db p = (fst (place_bet now db p), Inl e)"
    by (metis prod.collapse)
  then show "fst (place_bet now db p) = db"
    by (rule place_bet_Inl_unchanged)
next
  assume a: "db = Some s
        \<and> (ObjectId (pb_user_id p) = None
           \<or> (\<exists>i. ObjectId (pb_user_id p) = Some i
                \<and> (find_one_by_id i (coll_user s) = None
                    \<or> (\<exists>u. find_one_by_id i (coll_user s) = Some u \<and> u_balance u < pb_stake p)))
           \<or> pb_selections p = []
           \<or> (\<exists>x\<in>set (pb_selections p). bs_odds x \<le> 1))"
  have "\<not> (\<exists>r. snd (place_bet now db p) = Inr r)"
  proof
    assume "\<exists>r. snd (place_bet now db p) = Inr r"
    then obtain r where "place_bet now db p = (fst (place_bet now db p), Inr r)"
      by (metis prod.collapse)
    then have "\<exists>s i u. db = Some s \<and> ObjectId (pb_user_id p) = Some i
      \<and> find_one_by_id i (coll_user s) = Some u
      \<and> pb_selections p \<noteq> []
      \<and> (\<forall>x\<in>set (pb_selections p). 1 < bs_odds x)
      \<and> \<not> u_balance u < pb_stake p"
      using place_bet_Inr_iff [of now db p "fst (place_bet now db p)" r] by blast
    with a show False by force
  qed
  then obtain e where e: "snd (place_bet now db p) = Inl e"
    by (cases "snd (place_bet now db p)") auto
  then have "place_bet now db p = (fst (place_bet now db p), Inl e)"
    by (metis prod.collapse)
  moreover from this have "fst (place_bet now db p) = db"
    by (rule place_bet_Inl_unchanged)
  ultimately show "\<exists>e. place_bet now db p = (db, Inl e)"
    by auto
qed

theorem place_bet_failure_no_side_effects_witness:
  "place_bet demo_clock (Some (demo_store 5)) (demo_bet 10 [2]) =
     (Some (demo_store 5), Inl (HTTPException 400 ''Insufficient balance''))"
proof -
  have r: "snd (place_bet demo_clock (Some (demo_store 5)) (demo_bet 10 [2])) =
      Inl (HTTPException 400 ''Insufficient balance'')"
    by (simp add: place_bet_def Let_def demo_store_def demo_bet_def demo_user_def
        demo_selection_def ObjectId_demo_id)
  with place_bet_failure_no_side_effects
    [of demo_clock "Some (demo_store 5)" "demo_bet 10 [2]" "demo_store 5"]
  have "fst (place_bet demo_clock (Some (demo_store 5)) (demo_bet 10 [2])) = Some (demo_store 5)"
    by blast
  with r show ?thesis
    by (metis prod.collapse)
qed

section \<open>Validation of the odds\<close>

text \<open>
  Claim C4. With the datastore available and the user found, a bet whose selections are
  \<open>xs @ s # ys\<close>, where every selection of \<open>xs\<close> has odds above 1 and \<open>s\<close> has odds at
  most 1, fails with 400 ``Invalid odds in selection''. The loop multiplies the odds of
  \<open>xs\<close> into the total from left to right and raises at \<open>s\<close>; the selections \<open>ys\<close> after
  \<open>s\<close> play no part, and the same request without them has the same result.
\<close>

theorem place_bet_odds_validation:
  assumes "ObjectId (pb_user_id p) = Some i"
    and "find_one_by_id i (coll_user st) = Some u"
    and "pb_selections p = xs @ s # ys"
    and "\<forall>x\<in>set xs. 1 < bs_odds x"
    and "bs_odds s \<le> 1"
  shows "place_bet now (Some st) p =
           (Some st, Inl (HTTPException 400 ''Invalid odds in selection''))
         \<and> total_odds_loop 1 (xs @ s # ys) =
             total_odds_loop (prod_list (map bs_odds xs)) (s # ys)
         \<and> total_odds_loop (prod_list (map bs_odds xs)) (s # ys) =
             Inl (HTTPException 400 ''Invalid odds in selection'')
         \<and> place_bet now (Some st) (p\<lparr>pb_selections := xs @ [s]\<rparr>) = place_bet now (Some st) p"
proof -
  have l1: "total_odds_loop 1 (xs @ s # ys) = total_odds_loop (prod_list (map bs_odds xs)) (s # ys)"
    for ys
    using total_odds_loop_append [OF assms(4), of 1 "s # ys"] by simp
  have l2: "total_odds_loop acc (s # ys) = Inl (HTTPException 400 ''Invalid odds in selection'')"
    for acc ys
    using assms(5) by simp
  have pb: "place_bet now (Some st) (p\<lparr>pb_selections := xs @ s # zs\<rparr>) =
      (Some st, Inl (HTTPException 400 ''Invalid odds in selection''))" for zs
    using assms(1,2,5) by (simp add: place_bet_def l1)
  have "p\<lparr>pb_selections := xs @ s # ys\<rparr> = p"
    using assms(3) by simp
  with pb [of ys] pb [of "[]"] l1 [of ys] l2 show ?thesis
    by simp
qed

theorem place_bet_odds_validation_witness:
  "place_bet demo_clock (Some (demo_store 100)) (demo_bet 10 [2, 1, 3, 0]) =
     (Some (demo_store 100), Inl (HTTPException 400 ''Invalid odds in selection''))
   \<and> place_bet demo_clock (Some (demo_store 100)) (demo_bet 10 [2, 1]) =
     place_bet demo_clock (Some (demo_store 100)) (demo_bet 10 [2, 1, 3, 0])"
proof -
  have a: "ObjectId (pb_user_id (demo_bet 10 [2, 1, 3, 0])) = Some 0"
    by (simp add: demo_bet_def ObjectId_demo_id)
  have b: "find_one_by_id 0 (coll_user (demo_store 100)) = Some (demo_user 100)"
    by (simp add: demo_store_def)
  have c: "pb_selections (demo_bet 10 [2, 1, 3, 0]) =
      [demo_selection 2] @ demo_selection 1 # [demo_selection 3, demo_selection 0]"
    by (simp add: demo_bet_def)
  have d: "\<forall>x\<in>set [demo_selection 2]. 1 < bs_odds x"
    by (simp add: demo_selection_def)
  have e: "bs_odds (demo_selection 1) \<le> 1"
    by (simp add: demo_selection_def)
  have f: "(demo_bet 10 [2, 1, 3, 0])\<lparr>pb_selections := [demo_selection 2] @ [demo_selection 1]\<rparr>
      = demo_bet 10 [2, 1]"
    by (simp add: demo_bet_def)
  from place_bet_odds_validation [OF a b c d e, of demo_clock] f show ?thesis
    by simp
qed

section \<open>The potential return\<close>



section \<open>A stake equal to the balance\<close>

text \<open>
  Claim C9. The balance test is the strict \<^verbatim>\<open>balance < stake\<close>: a bet whose stake equals
  the user's balance (user id well formed, user present, selections non-empty and all
  above 1) succeeds, and the balance it returns and the balance it stores for the user
  are both 0.
\<close>

theorem place_bet_stake_equals_balance:
  assumes "ObjectId (pb_user_id p) = Some i"
    and "find_one_by_id i (coll_user s) = Some u"
    and "pb_selections p \<noteq> []"
    and "\<forall>x\<in>set (pb_selections p). 1 < bs_odds x"
    and "pb_stake p = u_balance u"
  shows "\<exists>s' r. place_bet now (Some s) p = (Some s', Inr r)
           \<and> br_balance r = 0
           \<and> map_option u_balance (find_one_by_id i (coll_user s')) = Some 0"
proof -
  from assms(5) have e: "\<not> u_balance u < pb_stake p" by simp
  show ?thesis
    using place_bet_success [OF assms(1-4) e, of now] assms(5)
    by (simp add: round2_0 find_update_one [OF assms(2)])
qed

theorem place_bet_stake_equals_balance_witness:
  "\<exists>s' r. place_bet demo_clock (Some (demo_store 10)) (demo_bet 10 [2, 3 / 2]) = (Some s', Inr r)
     \<and> br_balance r = 0
     \<and> map_option u_balance (find_one_by_id 0 (coll_user s')) = Some 0"
proof -
  have a: "ObjectId (pb_user_id (demo_bet 10 [2, 3 / 2])) = Some 0"
    by (simp add: demo_bet_def ObjectId_demo_id)
  have b: "find_one_by_id 0 (coll_user (demo_store 10)) = Some (demo_user 10)"
    by (simp add: demo_store_def)
  have c: "pb_selections (demo_bet 10 [2, 3 / 2]) \<noteq> []"
    by (simp add: demo_bet_def)
  have d: "\<forall>x\<in>set (pb_selections (demo_bet 10 [2, 3 / 2])). 1 < bs_odds x"
    by (simp add: demo_bet_def demo_selection_def)
  have e: "pb_stake (demo_bet 10 [2, 3 / 2]) = u_balance (demo_user 10)"
    by (simp add: demo_bet_def demo_user_def)
  from place_bet_stake_equals_balance [OF a b c d e, of demo_clock] show ?thesis .
qed

section \<open>Top-up\<close>

text \<open>
  Claim C5. A top-up of a positive amount for an existing user with balance \<open>b\<close> returns
  \<open>b + amount\<close>, unrounded, and stores it as that user's balance; the other users, the
  bets and the matches stay as they are; exactly one wallet transaction is appended, of
  type ``topup'', with amount \<open>amount\<close>, \<^verbatim>\<open>balance_after\<close> \<open>b + amount\<close> and no
  reference. The example of the claim (50, then 25, on a balance of 0) is the witness.
\<close>

theorem topup_wallet_effect:
  assumes "valid_TopupRequest p"
    and "ObjectId (tr_user_id p) = Some i"
    and "find_one_by_id i (coll_user s) = Some u"
  shows "\<exists>s' tid tx. topup_wallet now (Some s) p = (Some s', Inr (u_balance u + tr_amount p))
           \<and> map_option u_balance (find_one_by_id i (coll_user s')) =
               Some (u_balance u + tr_amount p)
           \<and> (\<forall>j. j \<noteq> i \<longrightarrow> find_one_by_id j (coll_user s') = find_one_by_id j (coll_user s))
           \<and> map fst (coll_user s') = map fst (coll_user s)
           \<and> coll_wallettransaction s' = coll_wallettransaction s @ [(tid, tx)]
           \<and> t_user_id tx = tr_user_id p
           \<and> t_type tx = ''topup''
           \<and> t_amount tx = tr_amount p
           \<and> t_balance_after tx = u_balance u + tr_amount p
           \<and> t_reference tx = None
           \<and> coll_bet s' = coll_bet s
           \<and> coll_match s' = coll_match s"
  using topup_wallet_success [OF assms(2,3), of now]
  by (simp add: find_update_one [OF assms(3)] map_fst_update_one find_update_one_other)

theorem topup_wallet_effect_witness:
  "\<exists>s1 s2. topup_wallet demo_clock (Some (demo_store 0)) (demo_topup 50) = (Some s1, Inr 50)
     \<and> topup_wallet demo_clock (Some s1) (demo_topup 25) = (Some s2, Inr 75)
     \<and> map_option u_balance (find_one_by_id 0 (coll_user s2)) = Some 75
     \<and> map (\<lambda>(j, t). t_balance_after t) (coll_wallettransaction s2) = [50, 75]
     \<and> sum_list (map (\<lambda>(j, t). t_amount t) (coll_wallettransaction s2)) = 75"
proof -
  have v1: "valid_TopupRequest (demo_topup 50)" and v2: "valid_TopupRequest (demo_topup 25)"
    by (simp_all add: valid_TopupRequest_def demo_topup_def)
  have o1: "ObjectId (tr_user_id (demo_topup 50)) = Some 0"
    and o2: "ObjectId (tr_user_id (demo_topup 25)) = Some 0"
    by (simp_all add: demo_topup_def ObjectId_demo_id)
  have f1: "find_one_by_id 0 (coll_user (demo_store 0)) = Some (demo_user 0)"
    by (simp add: demo_store_def)
  from topup_wallet_effect [OF v1 o1 f1, of demo_clock]
  obtain s1 tid1 tx1 where
    r1: "topup_wallet demo_clock (Some (demo_store 0)) (demo_topup 50) = (Some s1, Inr 50)"
    and b1: "map_option u_balance (find_one_by_id 0 (coll_user s1)) = Some 50"
    and w1: "coll_wallettransaction s1 = [(tid1, tx1)]"
    and a1: "t_amount tx1 = 50" "t_balance_after tx1 = 50"
    by (auto simp: demo_user_def demo_topup_def demo_store_def empty_store_def)
  from b1 obtain u1 where f2: "find_one_by_id 0 (coll_user s1) = Some u1"
    and u1: "u_balance u1 = 50"
    by auto
  from topup_wallet_effect [OF v2 o2 f2, of demo_clock] u1 w1
  obtain s2 tid2 tx2 where
    r2: "topup_wallet demo_clock (Some s1) (demo_topup 25) = (Some s2, Inr 75)"
    and b2: "map_option u_balance (find_one_by_id 0 (coll_user s2)) = Some 75"
    and w2: "coll_wallettransaction s2 = [(tid1, tx1), (tid2, tx2)]"
    and a2: "t_amount tx2 = 25" "t_balance_after tx2 = 75"
    by (auto simp: demo_topup_def)
  from r1 r2 b2 w2 a1 a2 show ?thesis
    by simp
qed

section \<open>Registration\<close>

text \<open>
  Claim C6. With the datastore available, \<^verbatim>\<open>register_user\<close> fails with 400 ``Phone already
  registered'' (the conflict error) when some user has the phone of the request and
  leaves the datastore as it is. Otherwise it appends one user with that name and phone,
  balance 0 and \<^verbatim>\<open>is_active\<close> true, touches no other collection and returns the new id
  with the name, the phone and the balance 0; after that, any registration with the same
  phone fails with the conflict error.
\<close>

theorem register_user_conflict:
  "((\<exists>(j, u)\<in>set (coll_user s). u_phone u = rr_phone p) \<longrightarrow>
      register_user now (Some s) p =
        (Some s, Inl (HTTPException 400 ''Phone already registered'')))
   \<and> (\<not> (\<exists>(j, u)\<in>set (coll_user s). u_phone u = rr_phone p) \<longrightarrow>
        (\<exists>s' user.
           register_user now (Some s) p =
             (Some s',
              Inr \<lparr>ur_user_id = str_oid (next_oid s), ur_name = rr_name p,
                   ur_phone = rr_phone p, ur_balance = 0\<rparr>)
           \<and> coll_user s' = coll_user s @ [(next_oid s, user)]
           \<and> u_name user = rr_name p \<and> u_phone user = rr_phone p
           \<and> u_balance user = 0 \<and> u_is_active user
           \<and> coll_match s' = coll_match s \<and> coll_bet s' = coll_bet s
           \<and> coll_wallettransaction s' = coll_wallettransaction s
           \<and> (\<forall>now' q. rr_phone q = rr_phone p \<longrightarrow>
                register_user now' (Some s') q =
                  (Some s', Inl (HTTPException 400 ''Phone already registered'')))))"
proof (intro conjI impI)
  assume "\<exists>(j, u)\<in>set (coll_user s). u_phone u = rr_phone p"
  then have "find_one_by_phone (rr_phone p) (coll_user s) \<noteq> None"
    by (simp add: find_one_by_phone_None_iff)
  then show "register_user now (Some s) p =
      (Some s, Inl (HTTPException 400 ''Phone already registered''))"
    by (auto simp: register_user_taken)
next
  assume "\<not> (\<exists>(j, u)\<in>set (coll_user s). u_phone u = rr_phone p)"
  then have free: "find_one_by_phone (rr_phone p) (coll_user s) = None"
    by (simp add: find_one_by_phone_None_iff)
  define user where "user =
    \<lparr>u_name = rr_name p, u_phone = rr_phone p, u_balance = 0,
     u_is_active = True, u_created_at = now 0, u_updated_at = now 1\<rparr>"
  define s' where "s' = s\<lparr>coll_user := coll_user s @ [(next_oid s, user)],
    next_oid := Suc (next_oid s)\<rparr>"
  have r: "register_user now (Some s) p =
      (Some s', Inr \<lparr>ur_user_id = str_oid (next_oid s), ur_name = rr_name p,
                     ur_phone = rr_phone p, ur_balance = 0\<rparr>)"
    using register_user_success [OF free, of now] by (simp add: s'_def user_def)
  have again: "register_user now' (Some s') q =
      (Some s', Inl (HTTPException 400 ''Phone already registered''))"
    if "rr_phone q = rr_phone p" for now' q
  proof -
    have "find_one_by_phone (rr_phone q) (coll_user s') = Some (next_oid s, user)"
      using that free by (simp add: s'_def find_one_by_phone_append user_def)
    then show ?thesis by (rule register_user_taken)
  qed
  from r again show "\<exists>s' user.
           register_user now (Some s) p =
             (Some s',
              Inr \<lparr>ur_user_id = str_oid (next_oid s), ur_name = rr_name p,
                   ur_phone = rr_phone p, ur_balance = 0\<rparr>)
           \<and> coll_user s' = coll_user s @ [(next_oid s, user)]
           \<and> u_name user = rr_name p \<and> u_phone user = rr_phone p
           \<and> u_balance user = 0 \<and> u_is_active user
           \<and> coll_match s' = coll_match s \<and> coll_bet s' = coll_bet s
           \<and> coll_wallettransaction s' = coll_wallettransaction s
           \<and> (\<forall>now' q. rr_phone q = rr_phone p \<longrightarrow>
                register_user now' (Some s') q =
                  (Some s', Inl (HTTPException 400 ''Phone already registered'')))"
    by (intro exI [of _ s'] exI [of _ user]) (simp add: s'_def user_def)
qed

theorem register_user_conflict_witness:
  "\<exists>s'. register_user demo_clock (Some empty_store) demo_register =
       (Some s',
        Inr \<lparr>ur_user_id = ''000000000000000000000000'', ur_name = ''Abebe'',
             ur_phone = ''0911000000'', ur_balance = 0\<rparr>)
     \<and> register_user demo_clock (Some s') (demo_register\<lparr>rr_name := ''Kebede''\<rparr>) =
       (Some s', Inl (HTTPException 400 ''Phone already registered''))"
proof -
  have free: "\<not> (\<exists>(j, u)\<in>set (coll_user empty_store). u_phone u = rr_phone demo_register)"
    by (simp add: empty_store_def)
  have "str_oid 0 = ''000000000000000000000000''"
    by code_simp
  then have id0: "str_oid (next_oid empty_store) = ''000000000000000000000000''"
    by (simp add: empty_store_def)
  have same: "rr_phone (demo_register\<lparr>rr_name := ''Kebede''\<rparr>) = rr_phone demo_register"
    by simp
  note c = register_user_conflict [of empty_store demo_register demo_clock, THEN conjunct2,
      THEN mp, OF free]
  from c obtain s' user where
    r: "register_user demo_clock (Some empty_store) demo_register =
       (Some s',
        Inr \<lparr>ur_user_id = str_oid (next_oid empty_store), ur_name = rr_name demo_register,
             ur_phone = rr_phone demo_register, ur_balance = 0\<rparr>)"
    and again: "\<forall>now' q. rr_phone q = rr_phone demo_register \<longrightarrow>
           register_user now' (Some s') q =
             (Some s', Inl (HTTPException 400 ''Phone already registered''))"
    by (elim exE conjE)
  from again same
  have "register_user demo_clock (Some s') (demo_register\<lparr>rr_name := ''Kebede''\<rparr>) =
       (Some s', Inl (HTTPException 400 ''Phone already registered''))"
    by (elim allE impE) assumption+
  moreover from r id0
  have "register_user demo_clock (Some empty_store) demo_register =
       (Some s',
        Inr \<lparr>ur_user_id = ''000000000000000000000000'', ur_name = ''Abebe'',
             ur_phone = ''0911000000'', ur_balance = 0\<rparr>)"
    by (simp add: demo_register_def)
  ultimately show ?thesis
    by (intro exI [of _ s'] conjI)
qed

section \<open>Seeding the matches\<close>

text \<open>
  Claim C7. With the datastore unavailable \<^verbatim>\<open>seed_matches\<close> does nothing. With a match
  collection that is not empty it leaves the datastore as it is. With an empty match
  collection it inserts exactly three matches, in this order: two football matches and
  one basketball match, with the fixed leagues, teams and odds of the source, each with
  status ``scheduled''; the other collections stay as they are.
\<close>

theorem seed_matches_three_samples:
  "seed_matches now None = None
   \<and> (coll_match s \<noteq> [] \<longrightarrow> seed_matches now (Some s) = Some s)
   \<and> (coll_match s = [] \<longrightarrow>
        (\<exists>s'. seed_matches now (Some s) = Some s'
           \<and> map (\<lambda>(i, m). (m_sport m, m_league m, m_home_team m, m_away_team m, m_status m))
                 (coll_match s') =
               [(''football'', ''Ethiopian Premier League'', ''Saint George'', ''Buna'',
                 ''scheduled''),
                (''football'', ''Ethiopian Premier League'', ''Fasil Kenema'', ''Wolaita Dicha'',
                 ''scheduled''),
                (''basketball'', ''Ethiopia Cup'', ''Addis Lions'', ''Hawassa Hawks'',
                 ''scheduled'')]
           \<and> map (\<lambda>(i, m). m_odds m) (coll_match s') =
               [[(''home_win'', 185 / 100), (''draw'', 32 / 10), (''away_win'', 39 / 10)],
                [(''home_win'', 21 / 10), (''draw'', 3), (''away_win'', 34 / 10)],
                [(''home_win'', 17 / 10), (''draw'', 0), (''away_win'', 22 / 10)]]
           \<and> map fst (coll_match s') = [next_oid s, next_oid s + 1, next_oid s + 2]
           \<and> length (coll_match s') = 3
           \<and> coll_user s' = coll_user s \<and> coll_bet s' = coll_bet s
           \<and> coll_wallettransaction s' = coll_wallettransaction s))"
  by (simp add: seed_matches_def count_documents_def samples_def)

theorem seed_matches_three_samples_witness:
  "\<exists>s'. seed_matches demo_clock (Some empty_store) = Some s'
     \<and> length (coll_match s') = 3
     \<and> seed_matches demo_clock (Some s') = Some s'"
proof -
  have e: "coll_match empty_store = []"
    by (simp add: empty_store_def)
  from seed_matches_three_samples [of demo_clock empty_store, THEN conjunct2, THEN conjunct2,
      THEN mp, OF e]
  obtain s' where r: "seed_matches demo_clock (Some empty_store) = Some s'"
    and l: "length (coll_match s') = 3"
    by (elim conjE exE)
  from l have ne: "coll_match s' \<noteq> []"
    by auto
  from seed_matches_three_samples [of demo_clock s', THEN conjunct2, THEN conjunct1,
      THEN mp, OF ne]
  have "seed_matches demo_clock (Some s') = Some s'" .
  with r l show ?thesis
    by (intro exI [of _ s'] conjI)
qed

section \<open>Listing transactions with limit 0\<close>

text \<open>
  Claim C10. \<^verbatim>\<open>list_transactions\<close> hands \<^verbatim>\<open>limit\<close> to the cursor unchanged, and the cursor
  reads 0 as no limit: with \<^verbatim>\<open>limit = 0\<close> the items are all the wallet transactions whose
  \<^verbatim>\<open>user_id\<close> is the one asked for, each exactly once, so that a user with at least one
  transaction gets more than \<^verbatim>\<open>limit\<close> items.
\<close>

theorem list_transactions_limit_zero:
  "\<exists>items. list_transactions (Some s) uid 0 = (Some s, Inr items)
     \<and> mset items =
         mset (map (\<lambda>(i, t). (str_oid i, t))
                 (filter (\<lambda>(i, t). t_user_id t = uid) (coll_wallettransaction s)))
     \<and> length items = length (filter (\<lambda>(i, t). t_user_id t = uid) (coll_wallettransaction s))
     \<and> (filter (\<lambda>(i, t). t_user_id t = uid) (coll_wallettransaction s) \<noteq> [] \<longrightarrow>
          \<not> int (length items) \<le> 0)"
proof -
  let ?rows = "filter (\<lambda>(i, t). t_user_id t = uid) (coll_wallettransaction s)"
  let ?items = "map (\<lambda>(i, t). (str_oid i, t)) (sort_desc (\<lambda>(i, t). t_created_at t) ?rows)"
  have r: "list_transactions (Some s) uid 0 = (Some s, Inr ?items)"
    by (simp add: list_transactions_def cursor_limit_def)
  have m: "mset ?items = mset (map (\<lambda>(i, t). (str_oid i, t)) ?rows)"
    by (simp add: mset_sort_desc)
  have l: "length ?items = length ?rows"
    by (simp add: sort_desc_def)
  from r m l show ?thesis
    by (intro exI [of _ ?items]) simp
qed

theorem list_transactions_limit_zero_witness:
  "\<exists>items. list_transactions (Some demo_ledger_store) demo_id 0 =
       (Some demo_ledger_store, Inr items)
     \<and> length items = 2"
proof -
  have rows: "filter (\<lambda>(i, t). t_user_id t = demo_id) (coll_wallettransaction demo_ledger_store)
      = [(1, demo_tx 50 50 10), (2, demo_tx 25 75 20)]"
    by (simp add: demo_ledger_store_def demo_tx_def)
  from list_transactions_limit_zero [of demo_ledger_store demo_id]
  obtain items where r: "list_transactions (Some demo_ledger_store) demo_id 0 =
       (Some demo_ledger_store, Inr items)"
    and l: "length items =
      length (filter (\<lambda>(i, t). t_user_id t = demo_id) (coll_wallettransaction demo_ledger_store))"
    by (elim exE conjE)
  from l rows have "length items = 2"
    by simp
  with r show ?thesis
    by (intro exI [of _ items] conjI)
qed

section \<open>Balance and ledger\<close>






end
